theory Spec2Isabelle
  imports Complex_Main
begin

unbundle bit_operations_syntax

section \<open>Values\<close>

text \<open>
  The program is TypeScript; every quantity in it is a JavaScript \<open>number\<close>, a double of
  IEEE 754. The finite numbers that the program stores (instruction words, register
  contents, pids) are integers, and \<open>Num\<close> carries them. Zero has two signs: \<open>Num 0\<close> is
  \<open>+0\<close> and \<open>NegZero\<close> is \<open>-0\<close>. The non-finite results are values of their own, because the
  program produces them where another language would raise: a division by zero yields an
  infinity or \<open>NaN\<close>, and \<open>parseInt\<close> yields \<open>NaN\<close> on a token without digits.

  A read of an array slot that does not exist yields \<open>undefined\<close>, which is not a number.
\<close>

datatype number = Num int | NegZero | PosInfinity | NegInfinity | NaN

datatype jsval = Undefined | Number number

text \<open>
  The program throws \<open>Error\<close> objects that differ only in their message; the model keeps
  one constructor per message, with the interpolated value as argument. A property read
  on \<open>undefined\<close> throws the language's own \<open>TypeError\<close>.
\<close>

datatype error =
    UnsupportedOperation string  \<comment> \<open>\<open>Unsupported operation: ${operation}\<close>\<close>
  | UnknownOpcode int            \<comment> \<open>\<open>Unknown opcode: ${opcode}\<close>\<close>
  | ProcessNotFound int          \<comment> \<open>\<open>Process ${pid} not found.\<close>\<close>
  | TypeError                    \<comment> \<open>property access on \<open>undefined\<close>\<close>

subsection \<open>Rounding\<close>

text \<open>
  Every arithmetic operation of the language returns the double nearest to the exact
  result, a tie going to the double whose last significand bit is \<open>0\<close>. A double has a
  significand of 53 bits. \<open>round53\<close> is this rounding with the exponent left unbounded:
  for \<open>2^e \<le> |x| < 2^(e+1)\<close> it rounds \<open>|x| / 2^(e-52)\<close> to an integer and scales back.

  The exponent of a double is bounded. Above, a rounded magnitude of \<open>2^1024\<close> or more is
  an infinity, which the operations below test. Below, magnitudes under \<open>2^(-1022)\<close> have
  fewer significand bits; the program only takes the floor of such a result, which is
  \<open>0\<close> or \<open>-1\<close> by its sign alone, and no nonzero quotient or product of the operands that
  occur here is small enough to round to zero.
\<close>

text \<open>The number of binary digits of \<open>n\<close>.\<close>

fun bit_length :: "nat \<Rightarrow> nat" where
  "bit_length n = (if n = 0 then 0 else Suc (bit_length (n div 2)))"

declare bit_length.simps [simp del]

text \<open>For \<open>0 < x\<close>, the \<open>e\<close> with \<open>2^e \<le> x < 2^(e+1)\<close>.\<close>

definition exponent :: "real \<Rightarrow> int" where
  "exponent x =
     (if 1 \<le> x then int (bit_length (nat \<lfloor>x\<rfloor>)) - 1
      else - int (bit_length (nat (\<lceil>1 / x\<rceil> - 1))))"

definition round_half_even :: "real \<Rightarrow> int" where
  "round_half_even y =
     (let f = \<lfloor>y\<rfloor>; r = y - of_int f
      in if 1 / 2 < r \<or> (r = 1 / 2 \<and> odd f) then f + 1 else f)"

definition round53 :: "real \<Rightarrow> real" where
  "round53 x =
     (if x = 0 then 0
      else (let e = exponent \<bar>x\<bar>
            in sgn x * of_int (round_half_even (\<bar>x\<bar> * 2 powi (52 - e))) * 2 powi (e - 52)))"

text \<open>
  The number that an operation returns when its exact result is the integer \<open>z\<close>. The
  rounded value of an integer is an integer. The sign of a zero result is the business
  of the operation; here zero is \<open>+0\<close>.
\<close>

definition round_int :: "int \<Rightarrow> number" where
  "round_int z =
     (let r = round53 (of_int z)
      in if 2 ^ 1024 \<le> \<bar>r\<bar> then (if 0 < z then PosInfinity else NegInfinity)
         else Num \<lfloor>r\<rfloor>)"

subsection \<open>Arithmetic of the language\<close>

text \<open>The sign bit of a number that is not \<open>NaN\<close>.\<close>

fun negative :: "number \<Rightarrow> bool" where
  "negative (Num a) = (a < 0)"
| "negative NegZero = True"
| "negative PosInfinity = False"
| "negative NegInfinity = True"
| "negative NaN = False"

fun is_zero :: "number \<Rightarrow> bool" where
  "is_zero (Num a) = (a = 0)"
| "is_zero NegZero = True"
| "is_zero _ = False"

fun is_infinite :: "number \<Rightarrow> bool" where
  "is_infinite PosInfinity = True"
| "is_infinite NegInfinity = True"
| "is_infinite _ = False"

text \<open>The integer that a finite number stands for.\<close>

fun int_value :: "number \<Rightarrow> int" where
  "int_value (Num a) = a"
| "int_value _ = 0"

fun js_neg :: "number \<Rightarrow> number" where
  "js_neg (Num a) = (if a = 0 then NegZero else Num (- a))"
| "js_neg NegZero = Num 0"
| "js_neg PosInfinity = NegInfinity"
| "js_neg NegInfinity = PosInfinity"
| "js_neg NaN = NaN"

text \<open>
  \<open>a + b\<close>: opposite infinities cancel to \<open>NaN\<close>, an infinity absorbs a finite number, the
  sum of two finite numbers is rounded. A sum that is exactly zero is \<open>+0\<close>, unless both
  operands are \<open>-0\<close>.
\<close>

fun js_add :: "number \<Rightarrow> number \<Rightarrow> number" where
  "js_add (Num a) (Num b) = round_int (a + b)"
| "js_add NaN _ = NaN"
| "js_add _ NaN = NaN"
| "js_add NegZero NegZero = NegZero"
| "js_add NegZero y = y"
| "js_add x NegZero = x"
| "js_add PosInfinity NegInfinity = NaN"
| "js_add NegInfinity PosInfinity = NaN"
| "js_add PosInfinity _ = PosInfinity"
| "js_add NegInfinity _ = NegInfinity"
| "js_add (Num a) PosInfinity = PosInfinity"
| "js_add (Num a) NegInfinity = NegInfinity"

text \<open>\<open>a - b\<close> is \<open>a + (-b)\<close>, signs of zero included.\<close>

definition js_sub :: "number \<Rightarrow> number \<Rightarrow> number" where
  "js_sub a b = js_add a (js_neg b)"

text \<open>
  \<open>a * b\<close>: an infinity times a zero is \<open>NaN\<close>; otherwise the sign of the result is negative
  exactly when the signs of the operands differ, also for a zero result; the product of
  two finite numbers is rounded.
\<close>

definition js_mul :: "number \<Rightarrow> number \<Rightarrow> number" where
  "js_mul x y =
     (if x = NaN \<or> y = NaN then NaN
      else if is_infinite x \<or> is_infinite y then
        (if is_zero x \<or> is_zero y then NaN
         else if negative x = negative y then PosInfinity else NegInfinity)
      else if is_zero x \<or> is_zero y then
        (if negative x = negative y then Num 0 else NegZero)
      else round_int (int_value x * int_value y))"

text \<open>
  \<open>Math.floor(a / b)\<close>. The quotient of two integers need not be an integer, so the
  division and the floor are one function here: the exact quotient is rounded to a
  double, and the floor is taken of that double. The division never throws: a nonzero
  number divided by a zero is an infinity, a zero divided by a zero is \<open>NaN\<close>, and
  \<open>Math.floor\<close> returns both as they are, as it does \<open>-0\<close>. The sign of a zero or infinite
  quotient is negative exactly when the signs of the operands differ.
\<close>

definition Math_floor_div :: "number \<Rightarrow> number \<Rightarrow> number" where
  "Math_floor_div x y =
     (if x = NaN \<or> y = NaN then NaN
      else if is_infinite x then
        (if is_infinite y then NaN
         else if negative x = negative y then PosInfinity else NegInfinity)
      else if is_infinite y then
        (if negative x = negative y then Num 0 else NegZero)
      else if is_zero y then
        (if is_zero x then NaN
         else if negative x = negative y then PosInfinity else NegInfinity)
      else if is_zero x then
        (if negative x = negative y then Num 0 else NegZero)
      else
        (let q = round53 (real_of_int (int_value x) / real_of_int (int_value y))
         in if 2 ^ 1024 \<le> \<bar>q\<bar> then (if 0 < q then PosInfinity else NegInfinity)
            else Num \<lfloor>q\<rfloor>))"

text \<open>
  The conversion that \<open>&\<close> and \<open>>>\<close> apply to an operand: \<open>undefined\<close>, \<open>NaN\<close>, the zeros and
  the infinities become \<open>0\<close>, an integer is reduced to a signed 32-bit value.
\<close>

fun ToInt32 :: "jsval \<Rightarrow> int" where
  "ToInt32 (Number (Num n)) = signed_take_bit 31 n"
| "ToInt32 _ = 0"

section \<open>Storage\<close>

text \<open>
  \<open>Storage\<close> wraps a JavaScript array, created with \<open>size\<close> slots (\<open>sz\<close> below) holding
  \<open>0\<close>. An array is an object whose slots are properties: reading a slot that does not exist yields
  \<open>undefined\<close>, and assigning to one creates it, below zero and beyond the length as
  well. The array is therefore a partial map from addresses to numbers.
\<close>

type_synonym Storage = "int \<rightharpoonup> number"

definition Storage_new :: "nat \<Rightarrow> Storage" where
  "Storage_new sz = (\<lambda>address. if 0 \<le> address \<and> address < int sz then Some (Num 0) else None)"

definition Storage_read :: "Storage \<Rightarrow> int \<Rightarrow> jsval" where
  "Storage_read memory address =
     (case memory address of None \<Rightarrow> Undefined | Some data \<Rightarrow> Number data)"

definition Storage_write :: "Storage \<Rightarrow> int \<Rightarrow> number \<Rightarrow> Storage" where
  "Storage_write memory address data = memory(address \<mapsto> data)"

section \<open>Registers\<close>

text \<open>
  \<open>RegisterFile\<close> holds an array of \<open>Register\<close> objects, each with one number, initially
  \<open>0\<close>. \<open>read\<close> and \<open>write\<close> call a method on \<open>this.registers[index]\<close>; where that slot does
  not exist the call is made on \<open>undefined\<close> and throws \<open>TypeError\<close>.
\<close>

type_synonym RegisterFile = "number list"

definition RegisterFile_new :: "nat \<Rightarrow> RegisterFile" where
  "RegisterFile_new sz = replicate sz (Num 0)"

definition RegisterFile_read :: "RegisterFile \<Rightarrow> int \<Rightarrow> error + number" where
  "RegisterFile_read registers index =
     (if 0 \<le> index \<and> index < int (length registers) then Inr (registers ! nat index)
      else Inl TypeError)"

definition RegisterFile_write :: "RegisterFile \<Rightarrow> int \<Rightarrow> number \<Rightarrow> error + RegisterFile" where
  "RegisterFile_write registers index data =
     (if 0 \<le> index \<and> index < int (length registers) then Inr (registers[nat index := data])
      else Inl TypeError)"

section \<open>Arithmetic unit\<close>

definition ALU_execute :: "string \<Rightarrow> number \<Rightarrow> number \<Rightarrow> error + number" where
  "ALU_execute operation operand1 operand2 =
     (if operation = ''ADD'' then Inr (js_add operand1 operand2)
      else if operation = ''SUB'' then Inr (js_sub operand1 operand2)
      else if operation = ''MUL'' then Inr (js_mul operand1 operand2)
      else if operation = ''DIV'' then Inr (Math_floor_div operand1 operand2)
      else Inl (UnsupportedOperation operation))"

section \<open>Control unit and CPU\<close>

record ControlUnit =
  instructionPointer :: int

definition ControlUnit_new :: ControlUnit where
  "ControlUnit_new = \<lparr>instructionPointer = 0\<rparr>"

text \<open>\<open>memory.read(this.instructionPointer++)\<close>: the read uses the old pointer.\<close>

definition fetchInstruction :: "ControlUnit \<Rightarrow> Storage \<Rightarrow> jsval \<times> ControlUnit" where
  "fetchInstruction cu memory =
     (Storage_read memory (ControlUnit.instructionPointer cu),
      cu\<lparr>ControlUnit.instructionPointer := ControlUnit.instructionPointer cu + 1\<rparr>)"

definition reset :: "ControlUnit \<Rightarrow> ControlUnit" where
  "reset cu = cu\<lparr>ControlUnit.instructionPointer := 0\<rparr>"

text \<open>The four fields that \<open>CPU.execute\<close> cuts out of the instruction.\<close>

definition opcode :: "jsval \<Rightarrow> int" where
  "opcode instruction = drop_bit 12 (ToInt32 instruction AND 0xF000)"

definition operand1 :: "jsval \<Rightarrow> int" where
  "operand1 instruction = drop_bit 8 (ToInt32 instruction AND 0x0F00)"

definition operand2 :: "jsval \<Rightarrow> int" where
  "operand2 instruction = drop_bit 4 (ToInt32 instruction AND 0x00F0)"

definition destination :: "jsval \<Rightarrow> int" where
  "destination instruction = ToInt32 instruction AND 0x000F"

text \<open>The arithmetic unit has no state; the CPU is its register file and its control unit.\<close>

record CPU =
  registers :: RegisterFile
  controlUnit :: ControlUnit

definition CPU_new :: "nat \<Rightarrow> CPU" where
  "CPU_new registerCount =
     \<lparr>registers = RegisterFile_new registerCount, controlUnit = ControlUnit_new\<rparr>"

text \<open>
  One case of the \<open>switch\<close>: read both operand registers, run the arithmetic unit, write the
  destination register. The first throw ends the call; what was mutated before it stays.
\<close>

definition alu_case :: "string \<Rightarrow> jsval \<Rightarrow> CPU \<Rightarrow> (error + unit) \<times> CPU" where
  "alu_case operation instruction cpu =
     (case RegisterFile_read (CPU.registers cpu) (operand1 instruction) of
        Inl e \<Rightarrow> (Inl e, cpu)
      | Inr a \<Rightarrow>
          (case RegisterFile_read (CPU.registers cpu) (operand2 instruction) of
             Inl e \<Rightarrow> (Inl e, cpu)
           | Inr b \<Rightarrow>
               (case ALU_execute operation a b of
                  Inl e \<Rightarrow> (Inl e, cpu)
                | Inr result \<Rightarrow>
                    (case RegisterFile_write (CPU.registers cpu) (destination instruction) result of
                       Inl e \<Rightarrow> (Inl e, cpu)
                     | Inr registers' \<Rightarrow> (Inr (), cpu\<lparr>CPU.registers := registers'\<rparr>)))))"

text \<open>
  \<open>CPU.execute(memory)\<close>. The result is the outcome (\<open>Inl\<close> the error thrown), the CPU
  after the call and the memory after the call; the memory is only read.
\<close>

definition CPU_execute :: "CPU \<Rightarrow> Storage \<Rightarrow> (error + unit) \<times> CPU \<times> Storage" where
  "CPU_execute cpu memory =
     (let (instruction, cu) = fetchInstruction (controlUnit cpu) memory;
          cpu1 = cpu\<lparr>controlUnit := cu\<rparr>
      in if opcode instruction = 0x1 then
           (let (outcome, cpu2) = alu_case ''ADD'' instruction cpu1 in (outcome, cpu2, memory))
         else if opcode instruction = 0x2 then
           (let (outcome, cpu2) = alu_case ''SUB'' instruction cpu1 in (outcome, cpu2, memory))
         else (Inl (UnknownOpcode (opcode instruction)), cpu1, memory))"

section \<open>Processes\<close>

datatype ProcessState = Ready | Running | Waiting | Terminated

record Process =
  pid :: int
  memory :: Storage
  registers :: RegisterFile
  instructionPointer :: int
  state :: ProcessState

definition Process_new :: "int \<Rightarrow> nat \<Rightarrow> nat \<Rightarrow> Process" where
  "Process_new pid' memorySize registerCount =
     \<lparr>pid = pid', memory = Storage_new memorySize, registers = RegisterFile_new registerCount,
      instructionPointer = 0, state = Ready\<rparr>"

subsection \<open>Program text\<close>

text \<open>
  \<open>program.split(',')\<close>: the pieces between the commas, in order. The result always has
  one piece more than the text has commas; the empty text gives one empty piece.
\<close>

fun split :: "string \<Rightarrow> string list" where
  "split [] = [[]]"
| "split (c # cs) =
     (if c = CHR '','' then [] # split cs
      else (case split cs of [] \<Rightarrow> [[c]] | token # tokens \<Rightarrow> (c # token) # tokens))"

text \<open>
  \<open>parseInt(num, 10)\<close>: leading white space is skipped, then one sign is read, then the
  longest run of decimal digits. With no digit the result is \<open>NaN\<close>. Whatever follows the
  digits is ignored. Since the radix is given as \<open>10\<close>, a prefix \<open>0x\<close> is not recognised:
  the digits of \<open>0x1120\<close> end after the \<open>0\<close>. The digits denote an integer, which is
  rounded to a double; \<open>-0\<close> is the negative zero. (The language allows an implementation
  to read the digits after the twentieth significant one as zeros; the model reads them
  as they are.)

  A \<open>char\<close> is a code unit below 256 of the program text. The white space of the language
  in this range is the six characters of ASCII and the no-break space \<open>0xA0\<close>.
\<close>

definition isWhiteSpace :: "char \<Rightarrow> bool" where
  "isWhiteSpace c =
     (c \<in> set [CHR 0x09, CHR 0x0A, CHR 0x0B, CHR 0x0C, CHR 0x0D, CHR 0x20, CHR 0xA0])"

definition isDigit :: "char \<Rightarrow> bool" where
  "isDigit c = (48 \<le> (of_char c :: nat) \<and> (of_char c :: nat) \<le> 57)"

definition digitValue :: "char \<Rightarrow> int" where
  "digitValue c = int (of_char c) - 48"

definition parseInt10 :: "string \<Rightarrow> number" where
  "parseInt10 inputString =
     (let S = dropWhile isWhiteSpace inputString;
          (sign, S') =
             (case S of
                [] \<Rightarrow> (1, S)
              | c # rest \<Rightarrow>
                  if c = CHR ''-'' then (- 1, rest)
                  else if c = CHR ''+'' then (1, rest) else (1, S));
          Z = takeWhile isDigit S';
          mathInt = foldl (\<lambda>value c. 10 * value + digitValue c) 0 Z
      in if Z = [] then NaN
         else if mathInt = 0 then (if sign = - 1 then NegZero else Num 0)
         else round_int (sign * mathInt))"

text \<open>
  \<open>loadProgram\<close>: every piece is parsed, and piece \<open>index\<close> is written to address \<open>index\<close>.
\<close>

definition loadProgram :: "Process \<Rightarrow> string \<Rightarrow> Process" where
  "loadProgram process program =
     (let instructions = map parseInt10 (split program)
      in process\<lparr>memory :=
           foldl (\<lambda>memory' (index, instruction). Storage_write memory' (int index) instruction)
             (memory process) (enumerate 0 instructions)\<rparr>)"

section \<open>Scheduler\<close>

text \<open>
  The queue holds references to processes; the scheduler itself never looks into a
  process when it selects one, so it is modelled for any type \<open>'p\<close> of references.
  \<open>schedule\<close> returns \<open>null\<close> on an empty queue; \<open>None\<close> stands for \<open>null\<close> and for the
  \<open>undefined\<close> that indexing beyond the queue would give, which the callers do not tell
  apart.
\<close>

record 'p Scheduler =
  processQueue :: "'p list"
  currentProcessIndex :: nat

definition Scheduler_new :: "'p Scheduler" where
  "Scheduler_new = \<lparr>processQueue = [], currentProcessIndex = 0\<rparr>"

definition addProcess :: "'p Scheduler \<Rightarrow> 'p \<Rightarrow> 'p Scheduler" where
  "addProcess s process = s\<lparr>processQueue := processQueue s @ [process]\<rparr>"

definition schedule :: "'p Scheduler \<Rightarrow> 'p option \<times> 'p Scheduler" where
  "schedule s =
     (if length (processQueue s) = 0 then (None, s)
      else
        (let process =
               (if currentProcessIndex s < length (processQueue s)
                then Some (processQueue s ! currentProcessIndex s) else None)
         in (process,
             s\<lparr>currentProcessIndex :=
                 (currentProcessIndex s + 1) mod length (processQueue s)\<rparr>)))"

text \<open>The results of \<open>n\<close> consecutive calls of \<open>schedule\<close>, and the scheduler after them.\<close>

fun schedule_n :: "nat \<Rightarrow> 'p Scheduler \<Rightarrow> 'p option list \<times> 'p Scheduler" where
  "schedule_n 0 s = ([], s)"
| "schedule_n (Suc n) s =
     (let (process, s1) = schedule s; (rest, s2) = schedule_n n s1 in (process # rest, s2))"

section \<open>Timer\<close>

text \<open>
  The handle that \<open>setInterval\<close> returns is modelled by its presence. The callback of the
  timer runs between two tasks of the host's event loop, never inside a running call, so
  no callback runs while \<open>run\<close> or \<open>executeProcess\<close> is executing.
\<close>

record Timer =
  interval :: nat
  timerId :: "unit option"

definition Timer_new :: "nat \<Rightarrow> Timer" where
  "Timer_new interval' = \<lparr>interval = interval', timerId = None\<rparr>"

definition start :: "Timer \<Rightarrow> Timer" where
  "start t = t\<lparr>timerId := Some ()\<rparr>"

definition stop :: "Timer \<Rightarrow> Timer" where
  "stop t = (if timerId t \<noteq> None then t\<lparr>timerId := None\<rparr> else t)"

section \<open>The operating system\<close>

text \<open>
  A process is an object that both the scheduler's queue and the process table refer to.
  The model keeps the objects in \<open>heap\<close>, in the order of their creation; a reference is
  the position of the object there. The file system and the virtual memory of
  \<open>SimpleOS\<close> take no part in the operations below and are left out, as is the text
  written to the console.
\<close>

type_synonym ref = nat

record SimpleOS =
  heap :: "Process list"
  scheduler :: "ref Scheduler"
  timer :: Timer
  processes :: "int \<rightharpoonup> ref"

definition SimpleOS_new :: SimpleOS where
  "SimpleOS_new =
     \<lparr>heap = [], scheduler = Scheduler_new, timer = Timer_new 1000, processes = Map.empty\<rparr>"

text \<open>
  \<open>createProcess\<close>. The value that \<open>Math.random()\<close> returns in the call is the argument
  \<open>random\<close>, a double that is at least \<open>0\<close> and less than \<open>1\<close>. The product
  \<open>Math.random() * 10000\<close> is rounded to a double before \<open>Math.floor\<close> is applied. The
  result is the reference to the new process and the system after the call.
\<close>

definition createProcess :: "real \<Rightarrow> nat \<Rightarrow> nat \<Rightarrow> SimpleOS \<Rightarrow> ref \<times> SimpleOS" where
  "createProcess random memorySize registerCount os =
     (let pid' = \<lfloor>round53 (random * 10000)\<rfloor>;
          process = length (heap os)
      in (process,
          os\<lparr>heap := heap os @ [Process_new pid' memorySize registerCount],
             scheduler := addProcess (scheduler os) process,
             processes := (processes os)(pid' \<mapsto> process)\<rparr>))"

text \<open>A sequence of \<open>createProcess\<close> calls, each with its random value and its two sizes.\<close>

fun createProcesses :: "(real \<times> nat \<times> nat) list \<Rightarrow> SimpleOS \<Rightarrow> SimpleOS" where
  "createProcesses [] os = os"
| "createProcesses ((random, memorySize, registerCount) # calls) os =
     createProcesses calls (snd (createProcess random memorySize registerCount os))"

definition loadProgramIntoProcess :: "SimpleOS \<Rightarrow> int \<Rightarrow> string \<Rightarrow> error + SimpleOS" where
  "loadProgramIntoProcess os pid' program =
     (case processes os pid' of
        None \<Rightarrow> Inl (ProcessNotFound pid')
      | Some process \<Rightarrow>
          Inr (os\<lparr>heap := (heap os)[process := loadProgram (heap os ! process) program]\<rparr>))"

text \<open>
  \<open>executeProcess\<close>. The CPU is a new one: it has registers of its own, as many as the
  process has, all \<open>0\<close>, and its own instruction pointer \<open>0\<close>; it is dropped after the
  cycle. An error of the cycle is caught, and both ways end with the state \<open>terminated\<close>.
\<close>

definition executeProcess :: "SimpleOS \<Rightarrow> int \<Rightarrow> error + SimpleOS" where
  "executeProcess os pid' =
     (case processes os pid' of
        None \<Rightarrow> Inl (ProcessNotFound pid')
      | Some process \<Rightarrow>
          if state (heap os ! process) = Ready then
            (let p1 = (heap os ! process)\<lparr>state := Running\<rparr>;
                 cpu = CPU_new (length (registers p1));
                 (outcome, cpu', memory') = CPU_execute cpu (memory p1);
                 p2 = p1\<lparr>memory := memory'\<rparr>;
                 p3 = (case outcome of
                         Inr _ \<Rightarrow> p2\<lparr>state := Terminated\<rparr>
                       | Inl error \<Rightarrow> p2\<lparr>state := Terminated\<rparr>)
             in Inr (os\<lparr>heap := (heap os)[process := p3]\<rparr>))
          else Inr os)"

text \<open>
  \<open>run\<close>. The \<open>while\<close> loop goes on for as long as \<open>schedule\<close> returns a process; nothing
  bounds the number of its rounds, so the loop is a partial function, and \<open>None\<close> is the
  call that does not return. \<open>run_loop os process\<close> is the loop entered with the variable
  \<open>process\<close>.
\<close>

partial_function (option) run_loop :: "SimpleOS \<Rightarrow> ref option \<Rightarrow> SimpleOS option" where
  "run_loop os process =
     (case process of
        None \<Rightarrow> Some os
      | Some r \<Rightarrow>
          (let os1 =
                 (if state (heap os ! r) = Ready then
                    (let p1 = (heap os ! r)\<lparr>state := Running\<rparr>;
                         cpu = CPU_new (length (registers p1));
                         (outcome, cpu', memory') = CPU_execute cpu (memory p1);
                         p2 = p1\<lparr>memory := memory'\<rparr>;
                         p3 = (case outcome of
                                 Inr _ \<Rightarrow> p2\<lparr>state := Terminated\<rparr>
                               | Inl error \<Rightarrow> p2\<lparr>state := Terminated\<rparr>)
                     in os\<lparr>heap := (heap os)[r := p3]\<rparr>)
                  else os);
               (next, s) = schedule (scheduler os1)
           in run_loop (os1\<lparr>scheduler := s\<rparr>) next))"

definition run :: "SimpleOS \<Rightarrow> SimpleOS option" where
  "run os =
     (let (process, s) = schedule (scheduler os);
          os1 = os\<lparr>scheduler := s, timer := start (timer os)\<rparr>
      in case run_loop os1 process of
           None \<Rightarrow> None
         | Some os2 \<Rightarrow> Some (os2\<lparr>timer := stop (timer os2)\<rparr>))"

section \<open>A system to run the operations on\<close>

text \<open>
  The system after \<open>createProcess(16, 4)\<close> on a new \<open>SimpleOS\<close>, with \<open>Math.random()\<close>
  returning \<open>0.5\<close>, and then \<open>executeProcess(5000)\<close>: one process, which is terminated.
\<close>

definition terminated_system :: SimpleOS where
  "terminated_system =
     \<lparr>heap = [(Process_new 5000 16 4)\<lparr>state := Terminated\<rparr>],
      scheduler = \<lparr>processQueue = [0], currentProcessIndex = 0\<rparr>,
      timer = Timer_new 1000,
      processes = [5000 \<mapsto> 0]\<rparr>"

section \<open>Properties of rounding\<close>

lemma bit_length_upper: "n < 2 ^ bit_length n"
proof (induction n rule: bit_length.induct)
  case (1 n)
  show ?case
  proof (cases "n = 0")
    case True
    then show ?thesis by (simp add: bit_length.simps)
  next
    case False
    with 1 have "n div 2 < 2 ^ bit_length (n div 2)" by simp
    then have "n < 2 * 2 ^ bit_length (n div 2)" by linarith
    with False show ?thesis by (simp add: bit_length.simps [of n])
  qed
qed

lemma bit_length_lower: "0 < n \<Longrightarrow> 2 ^ (bit_length n - 1) \<le> n"
proof (induction n rule: bit_length.induct)
  case (1 n)
  then have n: "n \<noteq> 0" by simp
  show ?case
  proof (cases "n div 2 = 0")
    case True
    with n show ?thesis by (simp add: bit_length.simps [of n] bit_length.simps [of 0])
  next
    case False
    with 1 n have ih: "2 ^ (bit_length (n div 2) - 1) \<le> n div 2" by simp
    from False have "0 < bit_length (n div 2)" by (simp add: bit_length.simps [of "n div 2"])
    then have "(2::nat) ^ bit_length (n div 2) = 2 * 2 ^ (bit_length (n div 2) - 1)"
      by (cases "bit_length (n div 2)") simp_all
    with ih have "2 ^ bit_length (n div 2) \<le> n" by linarith
    with n show ?thesis by (simp add: bit_length.simps [of n])
  qed
qed

lemma exponent_le:
  assumes "0 < x"
  shows "2 powi exponent x \<le> x"
proof (cases "1 \<le> x")
  case True
  let ?n = "nat \<lfloor>x\<rfloor>"
  from True have pos: "0 < ?n" by simp
  then have bl: "0 < bit_length ?n" by (simp add: bit_length.simps [of ?n])
  have "real (2 ^ (bit_length ?n - 1)) \<le> real ?n"
    using bit_length_lower [OF pos] by (rule of_nat_mono)
  also have "real ?n \<le> x" using True by (simp add: of_nat_nat)
  finally have "2 ^ (bit_length ?n - 1) \<le> x" by simp
  moreover have "exponent x = int (bit_length ?n - 1)"
    using True bl by (simp add: exponent_def of_nat_diff)
  ultimately show ?thesis by (simp add: power_int_def)
next
  case False
  let ?c = "\<lceil>1 / x\<rceil>"
  let ?j = "bit_length (nat (?c - 1))"
  from False assms have "1 < 1 / x" by simp
  then have c: "1 \<le> ?c" by linarith
  have "nat (?c - 1) < 2 ^ ?j" by (rule bit_length_upper)
  then have "?c - 1 < 2 ^ ?j" using c by (simp add: nat_less_iff)
  then have "?c \<le> 2 ^ ?j" by simp
  then have "real_of_int ?c \<le> 2 ^ ?j" by (metis of_int_le_iff of_int_numeral of_int_power)
  then have "1 / x \<le> 2 ^ ?j" by linarith
  with assms have "1 / 2 ^ ?j \<le> x" by (simp add: field_simps)
  moreover have "exponent x = - int ?j" using False by (simp add: exponent_def)
  ultimately show ?thesis by (simp add: power_int_minus field_simps)
qed

lemma exponent_gt:
  assumes "0 < x"
  shows "x < 2 powi (exponent x + 1)"
proof (cases "1 \<le> x")
  case True
  let ?n = "nat \<lfloor>x\<rfloor>"
  from True have pos: "0 < ?n" by simp
  have "?n < 2 ^ bit_length ?n" by (rule bit_length_upper)
  then have "Suc ?n \<le> 2 ^ bit_length ?n" by (rule Suc_leI)
  then have "real (Suc ?n) \<le> real (2 ^ bit_length ?n)" by (rule of_nat_mono)
  moreover have "x < real (Suc ?n)" using True by (simp add: of_nat_nat) linarith
  ultimately have "x < 2 ^ bit_length ?n" by simp
  moreover have "exponent x + 1 = int (bit_length ?n)"
    using True by (simp add: exponent_def)
  ultimately show ?thesis by (simp add: power_int_def)
next
  case False
  let ?c = "\<lceil>1 / x\<rceil>"
  let ?j = "bit_length (nat (?c - 1))"
  from False assms have gt1: "1 < 1 / x" by simp
  then have c: "2 \<le> ?c" by linarith
  then have pos: "0 < nat (?c - 1)" by simp
  then have j: "0 < ?j" by (simp add: bit_length.simps [of "nat (?c - 1)"])
  have "real (2 ^ (?j - 1)) \<le> real (nat (?c - 1))"
    using bit_length_lower [OF pos] by (rule of_nat_mono)
  also have "real (nat (?c - 1)) = real_of_int ?c - 1"
  proof -
    from c have "0 \<le> ?c - 1" by linarith
    then have "real (nat (?c - 1)) = real_of_int (?c - 1)" by (rule of_nat_nat)
    then show ?thesis by simp
  qed
  also have "\<dots> < 1 / x" by linarith
  finally have "2 ^ (?j - 1) < 1 / x" by simp
  with assms have "x < 1 / 2 ^ (?j - 1)" by (simp add: field_simps)
  moreover have "exponent x + 1 = - int (?j - 1)"
    using False j by (simp add: exponent_def of_nat_diff)
  ultimately show ?thesis by (simp add: power_int_minus field_simps)
qed

lemma round_half_even_of_int: "round_half_even (of_int k) = k"
  by (simp add: round_half_even_def)


lemma round53_minus: "round53 (- x) = - round53 x"
  by (simp add: round53_def Let_def sgn_minus)

lemma round53_pos:
  assumes "0 < x"
  shows "round53 x =
    of_int (round_half_even (x * 2 powi (52 - exponent x))) * 2 powi (exponent x - 52)"
  using assms by (simp add: round53_def Let_def)

text \<open>The rounding is exact when the scaled significand is an integer.\<close>

lemma round53_exact:
  assumes "0 < x" and "x * 2 powi (52 - exponent x) = of_int k"
  shows "round53 x = x"
proof -
  have "round53 x = of_int k * 2 powi (exponent x - 52)"
    using assms by (simp add: round53_pos round_half_even_of_int)
  also have "\<dots> = x * (2 powi (52 - exponent x) * 2 powi (exponent x - 52))"
    using assms(2) by simp
  also have "2 powi (52 - exponent x) * 2 powi (exponent x - 52) = (1::real)"
    by (simp flip: power_int_add)
  finally show ?thesis by simp
qed


lemma round53_of_int_pos:
  assumes "0 < z" and "z \<le> 2 ^ 53"
  shows "round53 (of_int z) = of_int z"
proof -
  let ?x = "real_of_int z"
  let ?e = "exponent ?x"
  from assms have pos: "0 < ?x" by simp
  have le: "?x \<le> 2 ^ 53" using assms(2) by (metis of_int_le_iff of_int_numeral of_int_power)
  have "(2::real) powi ?e \<le> 2 powi 53" using exponent_le [OF pos] le by simp
  then have e53: "?e \<le> 53" by (rule power_int_le_imp_le_exp [rotated]) simp_all
  show ?thesis
  proof (cases "?e = 53")
    case True
    with exponent_le [OF pos] le have "?x = 2 ^ 53" by simp
    then have "?x * 2 powi (52 - ?e) = of_int (2 ^ 52)" using True by (simp add: power_int_minus)
    then show ?thesis by (rule round53_exact [OF pos])
  next
    case False
    with e53 have "0 \<le> 52 - ?e" by simp
    then have "(2::real) powi (52 - ?e) = of_int (2 ^ nat (52 - ?e))"
      by (simp add: power_int_def)
    then have "?x * 2 powi (52 - ?e) = of_int (z * 2 ^ nat (52 - ?e))" by simp
    then show ?thesis by (rule round53_exact [OF pos])
  qed
qed

lemma round53_of_int:
  assumes "\<bar>z\<bar> \<le> 2 ^ 53"
  shows "round53 (of_int z) = of_int z"
proof -
  consider "z = 0" | "0 < z" | "z < 0" by linarith
  then show ?thesis
  proof cases
    case 1
    then show ?thesis by (simp add: round53_def)
  next
    case 2
    with assms show ?thesis by (simp add: round53_of_int_pos)
  next
    case 3
    with assms have "round53 (of_int (- z)) = of_int (- z)" by (intro round53_of_int_pos) simp_all
    then show ?thesis using round53_minus [of "of_int z"] by simp
  qed
qed



lemma round53_numeral [simp]:
  "numeral k \<le> (2::int) ^ 53 \<Longrightarrow> round53 (numeral k) = numeral k"
  using round53_of_int [of "numeral k"] by simp

section \<open>Properties of the arithmetic unit, the storage and the CPU\<close>

text \<open>An exact result of magnitude up to \<open>2^53\<close> is returned as it is.\<close>

lemma round_int_exact:
  assumes "\<bar>z\<bar> \<le> 2 ^ 53"
  shows "round_int z = Num z"
proof -
  from assms have "\<bar>real_of_int z\<bar> \<le> 2 ^ 53"
    by (metis of_int_abs of_int_le_iff of_int_numeral of_int_power)
  moreover have "(2::real) ^ 53 < 2 ^ 1024" by (rule power_strict_increasing) simp_all
  ultimately have "\<not> 2 ^ 1024 \<le> \<bar>real_of_int z\<bar>" by linarith
  then show ?thesis by (simp add: round_int_def round53_of_int [OF assms])
qed

lemma round_int_numeral [simp]:
  "numeral k \<le> (2::int) ^ 53 \<Longrightarrow> round_int (numeral k) = Num (numeral k)"
  "numeral k \<le> (2::int) ^ 53 \<Longrightarrow> round_int (- numeral k) = Num (- numeral k)"
  "round_int 0 = Num 0" "round_int 1 = Num 1"
  by (simp_all add: round_int_exact)


lemma dom_Storage_new: "dom (Storage_new sz) = {0..<int sz}"
  by (auto simp: Storage_new_def dom_def)




text \<open>
  Claim C3, as the program has it. For every integer \<open>a\<close>, \<open>DIV\<close> with divisor \<open>0\<close> throws
  nothing: it returns positive infinity when \<open>a\<close> is positive, negative infinity when \<open>a\<close>
  is negative and \<open>NaN\<close> when \<open>a\<close> is \<open>0\<close>.
\<close>

theorem ALU_execute_DIV_zero:
  "ALU_execute ''DIV'' (Num a) (Num 0) =
     Inr (if 0 < a then PosInfinity else if a < 0 then NegInfinity else NaN)"
  by (simp add: ALU_execute_def Math_floor_div_def)

theorem ALU_execute_DIV_zero_witness:
  "ALU_execute ''DIV'' (Num (- 3)) (Num 0) = Inr NegInfinity"
  using ALU_execute_DIV_zero [of "- 3"] by simp

text \<open>The claim as the specification words it fails: \<open>7 / 0\<close> is returned, not thrown.\<close>

theorem ALU_execute_DIV_zero_returns:
  "ALU_execute ''DIV'' (Num 7) (Num 0) = Inr PosInfinity"
  by (simp add: ALU_execute_def Math_floor_div_def)

text \<open>
  Claim C4, as the program has it. For a memory whose slots are the addresses
  \<open>0 .. size - 1\<close> and an address below \<open>0\<close> or at least \<open>size\<close>, \<open>read\<close> throws nothing and
  returns \<open>undefined\<close>, and \<open>write\<close> throws nothing and creates the slot: a \<open>read\<close> of that
  address then returns the value written, and every other address reads as before.
\<close>

theorem Storage_out_of_range:
  assumes "dom mem = {0..<int sz}" and "address < 0 \<or> int sz \<le> address"
  shows "Storage_read mem address = Undefined \<and>
         Storage_read (Storage_write mem address data) address = Number data \<and>
         (\<forall>other. other \<noteq> address \<longrightarrow>
            Storage_read (Storage_write mem address data) other = Storage_read mem other)"
proof -
  from assms have "address \<notin> dom mem" by auto
  then have "mem address = None" by (simp add: domIff)
  then show ?thesis by (simp add: Storage_read_def Storage_write_def)
qed

theorem Storage_out_of_range_witness:
  "dom (Storage_new 4) = {0..<int 4} \<and> ((7::int) < 0 \<or> int 4 \<le> 7) \<and>
   Storage_read (Storage_new 4) 7 = Undefined \<and>
   Storage_read (Storage_write (Storage_new 4) 7 (Num 9)) 7 = Number (Num 9) \<and>
   Storage_read (Storage_write (Storage_new 4) 7 (Num 9)) 3 = Storage_read (Storage_new 4) 3"
  using Storage_out_of_range [of "Storage_new 4" 4 7 "Num 9"] dom_Storage_new [of 4]
  by simp

text \<open>
  The claim as the specification words it fails: on a memory of size \<open>4\<close>, the read of
  address \<open>7\<close> and of address \<open>-1\<close> return \<open>undefined\<close>, and a write to either is kept.
\<close>

theorem Storage_out_of_range_no_error:
  "Storage_read (Storage_new 4) 7 = Undefined \<and>
   Storage_read (Storage_new 4) (- 1) = Undefined \<and>
   Storage_read (Storage_write (Storage_new 4) 7 (Num 9)) 7 = Number (Num 9) \<and>
   Storage_read (Storage_write (Storage_new 4) (- 1) (Num 9)) (- 1) = Number (Num 9)"
  by (simp add: Storage_read_def Storage_write_def Storage_new_def)

text \<open>
  Claim C1. A CPU whose register bank holds \<open>R1 = 5\<close> and \<open>R2 = 10\<close> and whose instruction
  pointer is \<open>0\<close> runs one \<open>execute\<close> against a memory whose word at address \<open>0\<close> is \<open>0x1120\<close>.
  The word decodes to opcode \<open>1\<close>, first operand \<open>1\<close>, second operand \<open>2\<close> and destination
  \<open>0\<close>; the call throws nothing, register \<open>R0\<close> holds \<open>15\<close> afterwards, the other registers
  and the memory are as before, and the instruction pointer is \<open>1\<close>.
\<close>

theorem CPU_execute_ADD_scenario:
  assumes "2 < length (CPU.registers cpu)"
    and "CPU.registers cpu ! 1 = Num 5" and "CPU.registers cpu ! 2 = Num 10"
    and "ControlUnit.instructionPointer (controlUnit cpu) = 0"
    and "Storage_read mem 0 = Number (Num 0x1120)"
  shows "opcode (Number (Num 0x1120)) = 0x1 \<and> operand1 (Number (Num 0x1120)) = 1 \<and>
         operand2 (Number (Num 0x1120)) = 2 \<and> destination (Number (Num 0x1120)) = 0 \<and>
         CPU_execute cpu mem =
           (Inr (),
            \<lparr>CPU.registers = (CPU.registers cpu)[0 := Num 15],
             controlUnit = \<lparr>ControlUnit.instructionPointer = 1\<rparr>\<rparr>,
            mem)"
  using assms
  by (auto simp: CPU_execute_def fetchInstruction_def opcode_def operand1_def operand2_def
      destination_def alu_case_def RegisterFile_read_def RegisterFile_write_def ALU_execute_def)

theorem CPU_execute_ADD_scenario_witness:
  "CPU_execute
     \<lparr>CPU.registers = [Num 0, Num 5, Num 10, Num 0], controlUnit = ControlUnit_new\<rparr>
     (Storage_write (Storage_new 256) 0 (Num 0x1120)) =
   (Inr (),
    \<lparr>CPU.registers = [Num 15, Num 5, Num 10, Num 0], controlUnit = \<lparr>ControlUnit.instructionPointer = 1\<rparr>\<rparr>,
    Storage_write (Storage_new 256) 0 (Num 0x1120))"
  using CPU_execute_ADD_scenario
    [of "\<lparr>CPU.registers = [Num 0, Num 5, Num 10, Num 0], controlUnit = ControlUnit_new\<rparr>"
        "Storage_write (Storage_new 256) 0 (Num 0x1120)"]
  by (simp add: ControlUnit_new_def Storage_read_def Storage_write_def)

text \<open>
  Claim C8. When the opcode field of the fetched instruction word is neither \<open>1\<close> nor \<open>2\<close>,
  \<open>execute\<close> throws the error \<open>Unknown opcode\<close> and leaves every register and the memory
  as they were; of the CPU only the instruction pointer has changed, which the fetch
  advanced by one.
\<close>

theorem CPU_execute_unknown_opcode:
  assumes "opcode (Storage_read mem (ControlUnit.instructionPointer (controlUnit cpu))) = oc"
    and "oc \<noteq> 0x1" and "oc \<noteq> 0x2"
  shows "CPU_execute cpu mem =
           (Inl (UnknownOpcode oc),
            cpu\<lparr>controlUnit := (controlUnit cpu)\<lparr>ControlUnit.instructionPointer :=
                   ControlUnit.instructionPointer (controlUnit cpu) + 1\<rparr>\<rparr>,
            mem) \<and>
         CPU.registers (fst (snd (CPU_execute cpu mem))) = CPU.registers cpu \<and>
         snd (snd (CPU_execute cpu mem)) = mem"
  using assms by (simp add: CPU_execute_def fetchInstruction_def)

theorem CPU_execute_unknown_opcode_witness:
  "opcode (Storage_read (Storage_write (Storage_new 256) 0 (Num 0x9120)) 0) = 0x9 \<and>
   CPU_execute
     \<lparr>CPU.registers = [Num 0, Num 5, Num 10, Num 0], controlUnit = ControlUnit_new\<rparr>
     (Storage_write (Storage_new 256) 0 (Num 0x9120)) =
   (Inl (UnknownOpcode 0x9),
    \<lparr>CPU.registers = [Num 0, Num 5, Num 10, Num 0], controlUnit = \<lparr>ControlUnit.instructionPointer = 1\<rparr>\<rparr>,
    Storage_write (Storage_new 256) 0 (Num 0x9120))"
proof -
  have oc: "opcode (Storage_read (Storage_write (Storage_new 256) 0 (Num 0x9120))
              (ControlUnit.instructionPointer (controlUnit
                 \<lparr>CPU.registers = [Num 0, Num 5, Num 10, Num 0], controlUnit = ControlUnit_new\<rparr>))) = 0x9"
    by (simp add: opcode_def Storage_read_def Storage_write_def ControlUnit_new_def)
  show ?thesis
    using CPU_execute_unknown_opcode [OF oc] oc
    by (simp add: ControlUnit_new_def)
qed

lemma field_bits:
  fixes n :: int
  shows "drop_bit 12 (signed_take_bit 31 n AND 0xF000) = take_bit 4 (drop_bit 12 n)"
    and "drop_bit 8 (signed_take_bit 31 n AND 0x0F00) = take_bit 4 (drop_bit 8 n)"
    and "drop_bit 4 (signed_take_bit 31 n AND 0x00F0) = take_bit 4 (drop_bit 4 n)"
    and "signed_take_bit 31 n AND 0x000F = take_bit 4 n"
proof -
  have m: "(0xF000::int) = push_bit 12 (mask 4)" "(0x0F00::int) = push_bit 8 (mask 4)"
    "(0x00F0::int) = push_bit 4 (mask 4)" "(0x000F::int) = mask 4"
    by (simp_all add: mask_eq_exp_minus_1 push_bit_eq_mult)
  show "drop_bit 12 (signed_take_bit 31 n AND 0xF000) = take_bit 4 (drop_bit 12 n)"
    unfolding m by (rule bit_eqI) (auto simp: bit_simps)
  show "drop_bit 8 (signed_take_bit 31 n AND 0x0F00) = take_bit 4 (drop_bit 8 n)"
    unfolding m by (rule bit_eqI) (auto simp: bit_simps)
  show "drop_bit 4 (signed_take_bit 31 n AND 0x00F0) = take_bit 4 (drop_bit 4 n)"
    unfolding m by (rule bit_eqI) (auto simp: bit_simps)
  show "signed_take_bit 31 n AND 0x000F = take_bit 4 n"
    unfolding m by (rule bit_eqI) (auto simp: bit_simps)
qed

text \<open>
  The field layout of an instruction word, for every integer: the opcode is bits 15 to 12,
  the first operand bits 11 to 8, the second operand bits 7 to 4, the destination bits 3
  to 0.
\<close>

lemma decode_fields:
  "opcode (Number (Num n)) = n div 4096 mod 16"
  "operand1 (Number (Num n)) = n div 256 mod 16"
  "operand2 (Number (Num n)) = n div 16 mod 16"
  "destination (Number (Num n)) = n mod 16"
  unfolding opcode_def operand1_def operand2_def destination_def ToInt32.simps field_bits
  by (simp_all add: take_bit_eq_mod drop_bit_eq_div)

section \<open>Properties of program loading\<close>

lemma foldl_Storage_write:
  "foldl (\<lambda>memory' (index, instruction). Storage_write memory' (int index) instruction) m
     (enumerate n xs) =
   (\<lambda>a. if int n \<le> a \<and> a < int n + int (length xs) then Some (xs ! nat (a - int n)) else m a)"
proof (induction xs arbitrary: n m)
  case Nil
  then show ?case by (auto simp: fun_eq_iff)
next
  case (Cons x xs)
  have idx: "nat (a - int n) - Suc 0 = nat (a - (1 + int n))" for a
    by simp
  have "foldl (\<lambda>memory' (index, instruction). Storage_write memory' (int index) instruction) m
          (enumerate n (x # xs)) =
        foldl (\<lambda>memory' (index, instruction). Storage_write memory' (int index) instruction)
          (Storage_write m (int n) x) (enumerate (Suc n) xs)"
    by simp
  also have "\<dots> = (\<lambda>a. if int (Suc n) \<le> a \<and> a < int (Suc n) + int (length xs)
                      then Some (xs ! nat (a - int (Suc n))) else Storage_write m (int n) x a)"
    by (rule Cons.IH)
  also have "\<dots> = (\<lambda>a. if int n \<le> a \<and> a < int n + int (length (x # xs))
                      then Some ((x # xs) ! nat (a - int n)) else m a)"
    by (auto simp: fun_eq_iff Storage_write_def nth_Cons' idx)
  finally show ?case .
qed

text \<open>
  What \<open>loadProgram\<close> leaves in memory: address \<open>i\<close> holds what \<open>parseInt\<close> returned for
  piece \<open>i\<close> of the text, and the addresses beyond the pieces are as they were.
\<close>

lemma loadProgram_cells:
  "Storage_read (memory (loadProgram p program)) a =
     (if 0 \<le> a \<and> a < int (length (split program))
      then Number (parseInt10 (split program ! nat a)) else Storage_read (memory p) a)"
  by (auto simp: loadProgram_def foldl_Storage_write Storage_read_def)

text \<open>
  Claim C5, at an input where the program departs from it. The text \<open>4384,0x1120\<close> has two
  pieces, which write the same integer, \<open>4384\<close>, once in decimal and once in hexadecimal
  notation. \<open>loadProgram\<close> stores \<open>4384\<close> at address \<open>0\<close> and \<open>0\<close> at address \<open>1\<close>: the
  hexadecimal piece is read with radix \<open>10\<close>, up to its \<open>x\<close>.
\<close>

theorem loadProgram_hex_token:
  "split ''4384,0x1120'' = [''4384'', ''0x1120''] \<and>
   parseInt10 ''0x1120'' = Num 0 \<and>
   Storage_read (memory (loadProgram (Process_new 1 16 4) ''4384,0x1120'')) 0 = Number (Num 4384) \<and>
   Storage_read (memory (loadProgram (Process_new 1 16 4) ''4384,0x1120'')) 1 = Number (Num 0) \<and>
   (0x1120 :: int) = 4384"
  by (simp add: loadProgram_cells parseInt10_def isWhiteSpace_def isDigit_def digitValue_def)

section \<open>Properties of the scheduler\<close>

lemma schedule_queue: "processQueue (snd (schedule s)) = processQueue s"
  by (simp add: schedule_def Let_def)

lemma schedule_in_range:
  "currentProcessIndex s < length (processQueue s) \<Longrightarrow>
   schedule s =
     (Some (processQueue s ! currentProcessIndex s),
      s\<lparr>currentProcessIndex := (currentProcessIndex s + 1) mod length (processQueue s)\<rparr>)"
  by (auto simp: schedule_def Let_def)

text \<open>
  From a cursor inside the queue, call \<open>k\<close> of \<open>n\<close> consecutive calls returns the element
  \<open>k\<close> places after the cursor, counted around the queue.
\<close>

lemma schedule_n_cycles:
  "currentProcessIndex t < length (processQueue t) \<Longrightarrow>
   fst (schedule_n n t) =
     map (\<lambda>k. Some (processQueue t ! ((currentProcessIndex t + k) mod length (processQueue t))))
       [0..<n]"
proof (induction n arbitrary: t)
  case 0
  then show ?case by simp
next
  case (Suc n)
  let ?t1 = "snd (schedule t)"
  let ?len = "length (processQueue t)"
  from Suc.prems have ne: "?len \<noteq> 0" by auto
  have q: "processQueue ?t1 = processQueue t" by (rule schedule_queue)
  have c: "currentProcessIndex ?t1 = (currentProcessIndex t + 1) mod ?len"
    using Suc.prems by (simp add: schedule_in_range)
  have f: "fst (schedule t) = Some (processQueue t ! currentProcessIndex t)"
    using Suc.prems by (simp add: schedule_in_range)
  have lt: "currentProcessIndex ?t1 < length (processQueue ?t1)"
    using ne by (simp add: q c)
  have step: "(Suc (currentProcessIndex t) mod ?len + k) mod ?len =
              Suc (currentProcessIndex t + k) mod ?len" for k
    by (metis add_Suc mod_add_left_eq)
  have "fst (schedule_n (Suc n) t) = fst (schedule t) # fst (schedule_n n ?t1)"
    by (simp add: split_beta Let_def)
  also have "\<dots> = Some (processQueue t ! currentProcessIndex t) #
      map (\<lambda>k. Some (processQueue t ! ((currentProcessIndex t + Suc k) mod ?len))) [0..<n]"
    using Suc.IH [OF lt] by (simp add: f q c step)
  also have "\<dots> =
      map (\<lambda>k. Some (processQueue t ! ((currentProcessIndex t + k) mod ?len))) [0..<Suc n]"
    using Suc.prems by (simp add: map_upt_Suc del: upt_Suc)
  finally show ?case .
qed

text \<open>
  Claim C7. With the queue \<open>[p0, p1, p2]\<close> and the cursor at \<open>0\<close>, four consecutive calls of
  \<open>schedule\<close> return \<open>p0\<close>, \<open>p1\<close>, \<open>p2\<close>, \<open>p0\<close>. On an empty queue \<open>schedule\<close> returns none and
  changes nothing. No call changes the queue, so no element is ever removed; and from any
  cursor inside the queue the calls return the elements one after the other around the
  queue, whatever the processes are, so none is skipped.
\<close>

theorem schedule_round_robin:
  "(processQueue s = [p0, p1, p2] \<and> currentProcessIndex s = 0 \<longrightarrow>
      fst (schedule_n 4 s) = [Some p0, Some p1, Some p2, Some p0]) \<and>
   (processQueue e = [] \<longrightarrow> schedule e = (None, e)) \<and>
   processQueue (snd (schedule t)) = processQueue t \<and>
   (currentProcessIndex t < length (processQueue t) \<longrightarrow>
      fst (schedule_n n t) =
        map (\<lambda>k. Some (processQueue t ! ((currentProcessIndex t + k) mod length (processQueue t))))
          [0..<n])"
proof -
  have four: "fst (schedule_n 4 s) = [Some p0, Some p1, Some p2, Some p0]"
    if "processQueue s = [p0, p1, p2]" and "currentProcessIndex s = 0"
    using that schedule_n_cycles [of s 4] by (simp add: upt_rec)
  have none: "schedule e = (None, e)" if "processQueue e = []"
    using that by (simp add: schedule_def)
  from four none show ?thesis
    using schedule_n_cycles [of t n] by (simp add: schedule_queue)
qed

theorem schedule_round_robin_witness:
  "fst (schedule_n 4 \<lparr>processQueue = [10::nat, 20, 30], currentProcessIndex = 0\<rparr>) =
     [Some 10, Some 20, Some 30, Some 10] \<and>
   schedule (Scheduler_new :: nat Scheduler) = (None, Scheduler_new) \<and>
   processQueue (snd (schedule \<lparr>processQueue = [10::nat, 20, 30], currentProcessIndex = 2\<rparr>)) =
     [10, 20, 30] \<and>
   fst (schedule_n 2 \<lparr>processQueue = [10::nat, 20, 30], currentProcessIndex = 2\<rparr>) =
     [Some 30, Some 10]"
  using schedule_round_robin
    [of "\<lparr>processQueue = [10::nat, 20, 30], currentProcessIndex = 0\<rparr>" 10 20 30
        "Scheduler_new" "\<lparr>processQueue = [10::nat, 20, 30], currentProcessIndex = 2\<rparr>" 2]
  by (simp add: Scheduler_new_def upt_rec)

section \<open>Properties of the operating system\<close>

lemma snd_createProcess:
  "snd (createProcess random memorySize registerCount os) =
     os\<lparr>heap := heap os @ [Process_new \<lfloor>round53 (random * 10000)\<rfloor> memorySize registerCount],
        scheduler := addProcess (scheduler os) (length (heap os)),
        processes := (processes os)(\<lfloor>round53 (random * 10000)\<rfloor> \<mapsto> length (heap os))\<rparr>"
  by (simp add: createProcess_def Let_def)


lemma scheduler_createProcesses:
  "length (processQueue (scheduler (createProcesses calls os))) =
     length (processQueue (scheduler os)) + length calls \<and>
   currentProcessIndex (scheduler (createProcesses calls os)) =
     currentProcessIndex (scheduler os)"
  by (induction calls os rule: createProcesses.induct)
     (simp_all add: snd_createProcess addProcess_def)



text \<open>
  The product \<open>Math.random() * 10000\<close> is rounded before the floor is taken, and the
  rounding can reach the next integer: for the double \<open>108987110982366 / 2^53\<close> the exact
  product is below \<open>121\<close> and the pid is \<open>121\<close>.
\<close>

lemma createProcess_pid_rounded:
  "pid (heap (snd (createProcess (108987110982366 / 2 ^ 53) 16 4 SimpleOS_new)) ! 0) = 121 \<and>
   \<lfloor>108987110982366 / 2 ^ 53 * (10000 :: real)\<rfloor> = 120"
  by (simp add: snd_createProcess SimpleOS_new_def Process_new_def round53_def exponent_def
      round_half_even_def bit_length.simps)





lemma createProcess_then_executeProcess:
  "executeProcess (snd (createProcess (1/2) 16 4 SimpleOS_new)) 5000 = Inr terminated_system"
  by (simp add: snd_createProcess SimpleOS_new_def addProcess_def Scheduler_new_def
      executeProcess_def Process_new_def CPU_execute_def fetchInstruction_def CPU_new_def
      ControlUnit_new_def Storage_read_def Storage_new_def opcode_def terminated_system_def)

text \<open>
  Claim C10. For a process that the table has under \<open>pid\<close> and whose state is not \<open>ready\<close>
  (it is \<open>running\<close>, \<open>waiting\<close> or \<open>terminated\<close>),
  \<open>executeProcess(pid)\<close> throws nothing and changes nothing: the system after the call is
  the system before it, and with it the state, the memory, the registers and the
  instruction pointer of the process.
\<close>

theorem executeProcess_not_ready:
  assumes "processes os pid' = Some process" and "process < length (heap os)"
    and "state (heap os ! process) \<noteq> Ready"
  shows "executeProcess os pid' = Inr os"
  using assms by (simp add: executeProcess_def)

theorem executeProcess_not_ready_witness:
  "processes terminated_system 5000 = Some 0 \<and>
   0 < length (heap terminated_system) \<and>
   state (heap terminated_system ! 0) = Terminated \<and>
   executeProcess terminated_system 5000 = Inr terminated_system"
proof -
  have table: "processes terminated_system 5000 = Some 0"
    by (simp add: terminated_system_def)
  have alloc: "0 < length (heap terminated_system)"
    by (simp add: terminated_system_def)
  have st: "state (heap terminated_system ! 0) = Terminated"
    by (simp add: terminated_system_def)
  then have "state (heap terminated_system ! 0) \<noteq> Ready" by simp
  from executeProcess_not_ready [OF table alloc this] table alloc st show ?thesis by simp
qed

subsection \<open>The loop of \<open>run\<close>\<close>

text \<open>
  A call of the loop that returns was entered either without a process or with the cursor
  outside the queue: with the cursor inside the queue, every round ends with \<open>schedule\<close>
  returning a process again.
\<close>

lemma run_loop_returns:
  assumes "run_loop os process = Some y"
  shows "process = None \<or>
         \<not> currentProcessIndex (scheduler os) < length (processQueue (scheduler os))"
proof (rule run_loop.raw_induct
    [where P = "\<lambda>os process y. process = None \<or>
         \<not> currentProcessIndex (scheduler os) < length (processQueue (scheduler os))",
     OF _ assms])
  fix loop :: "SimpleOS \<Rightarrow> ref option \<Rightarrow> SimpleOS option" and os process y
  assume IH: "\<And>os process y. loop os process = Some y \<Longrightarrow>
      process = None \<or>
      \<not> currentProcessIndex (scheduler os) < length (processQueue (scheduler os))"
  assume body: "(case process of
        None \<Rightarrow> Some os
      | Some r \<Rightarrow>
          (let os1 =
                 (if state (heap os ! r) = Ready then
                    (let p1 = (heap os ! r)\<lparr>state := Running\<rparr>;
                         cpu = CPU_new (length (registers p1));
                         (outcome, cpu', memory') = CPU_execute cpu (memory p1);
                         p2 = p1\<lparr>memory := memory'\<rparr>;
                         p3 = (case outcome of
                                 Inr _ \<Rightarrow> p2\<lparr>state := Terminated\<rparr>
                               | Inl error \<Rightarrow> p2\<lparr>state := Terminated\<rparr>)
                     in os\<lparr>heap := (heap os)[r := p3]\<rparr>)
                  else os);
               (next, s) = schedule (scheduler os1)
           in loop (os1\<lparr>scheduler := s\<rparr>) next)) = Some y"
  show "process = None \<or>
         \<not> currentProcessIndex (scheduler os) < length (processQueue (scheduler os))"
  proof (cases process)
    case None
    then show ?thesis by simp
  next
    case (Some r)
    let ?q = "processQueue (scheduler os)"
    let ?c = "currentProcessIndex (scheduler os)"
    let ?s = "(scheduler os)\<lparr>currentProcessIndex := (?c + 1) mod length ?q\<rparr>"
    show ?thesis
    proof (cases "?c < length ?q")
      case False
      then show ?thesis by simp
    next
      case True
      then have ne: "0 < length ?q" by auto
      from body Some True obtain os1 where
        call: "loop (os1\<lparr>scheduler := ?s\<rparr>) (Some (?q ! ?c)) = Some y"
        by (simp add: schedule_in_range Let_def split_beta split: if_splits)
      from IH [OF call] ne show ?thesis by simp
    qed
  qed
qed

text \<open>With the cursor inside the queue, which needs a process in the queue, \<open>run\<close> does not return.\<close>

lemma run_diverges:
  assumes "currentProcessIndex (scheduler os) < length (processQueue (scheduler os))"
  shows "run os = None"
proof -
  let ?q = "processQueue (scheduler os)"
  let ?c = "currentProcessIndex (scheduler os)"
  let ?s = "(scheduler os)\<lparr>currentProcessIndex := (?c + 1) mod length ?q\<rparr>"
  from assms have ne: "0 < length ?q" by auto
  have "run_loop (os\<lparr>scheduler := ?s, timer := start (timer os)\<rparr>) (Some (?q ! ?c)) = None"
  proof (cases "run_loop (os\<lparr>scheduler := ?s, timer := start (timer os)\<rparr>) (Some (?q ! ?c))")
    case None
    then show ?thesis .
  next
    case (Some y)
    from run_loop_returns [OF Some] ne show ?thesis by simp
  qed
  then show ?thesis using assms by (simp add: run_def schedule_in_range)
qed

text \<open>Every system that \<open>createProcess\<close> calls have built from a new one is such a system.\<close>

lemma run_after_createProcesses:
  "calls \<noteq> [] \<Longrightarrow> run (createProcesses calls SimpleOS_new) = None"
  by (rule run_diverges)
     (simp add: scheduler_createProcesses SimpleOS_new_def Scheduler_new_def)

text \<open>Without a process the loop is not entered: \<open>run\<close> returns, and the timer is stopped.\<close>

lemma run_no_process: "run SimpleOS_new = Some SimpleOS_new"
  by (simp add: run_def SimpleOS_new_def schedule_def Scheduler_new_def run_loop.simps
      start_def stop_def Timer_new_def)

text \<open>
  Claim C2, at an input where the program departs from it. One process is created and
  executed; it is terminated, and it is the only process of the table. \<open>run\<close> on this
  system does not return, so it never reaches the call that stops the timer.
\<close>

theorem run_all_terminated_never_returns:
  "executeProcess (snd (createProcess (1/2) 16 4 SimpleOS_new)) 5000 = Inr terminated_system \<and>
   map state (heap terminated_system) = [Terminated] \<and>
   run terminated_system = None"
proof -
  have "currentProcessIndex (scheduler terminated_system) <
        length (processQueue (scheduler terminated_system))"
    by (simp add: terminated_system_def)
  then have "run terminated_system = None" by (rule run_diverges)
  then show ?thesis
    by (simp add: createProcess_then_executeProcess) (simp add: terminated_system_def)
qed

end
